theory Spec2Isabelle
  imports Complex_Main "HOL-Library.Multiset"
begin

section \<open>JavaScript values used by the extension\<close>

text \<open>
  A JavaScript \<^verbatim>\<open>number\<close> is modelled as an exact real or \<^verbatim>\<open>NaN\<close>
  (\<^verbatim>\<open>parseFloat\<close> can produce \<^verbatim>\<open>NaN\<close>). Rounding to a double and the
  infinities are outside the model. A value of type \<^verbatim>\<open>number | null\<close> (or an optional
  parameter) is a \<open>number option\<close>, with \<open>None\<close> for \<^verbatim>\<open>null\<close> and
  \<^verbatim>\<open>undefined\<close>.
\<close>

datatype number = NaN | Num real

text \<open>Truthiness of a number: \<^verbatim>\<open>0\<close> and \<^verbatim>\<open>NaN\<close> are falsy.\<close>

fun truthy :: "number \<Rightarrow> bool" where
  "truthy NaN = False"
| "truthy (Num r) = (r \<noteq> 0)"

text \<open>The comparisons \<^verbatim>\<open>a > b\<close> and \<^verbatim>\<open>a < b\<close>: false as soon as one side is \<^verbatim>\<open>NaN\<close>.\<close>

fun gt :: "number \<Rightarrow> number \<Rightarrow> bool" where
  "gt (Num a) (Num b) = (a > b)"
| "gt _ _ = False"

fun lt :: "number \<Rightarrow> number \<Rightarrow> bool" where
  "lt (Num a) (Num b) = (a < b)"
| "lt _ _ = False"

text \<open>
  \<^verbatim>\<open>t && p(t)\<close> for an optional number \<open>t\<close>: \<^verbatim>\<open>null\<close>, \<^verbatim>\<open>undefined\<close>, \<^verbatim>\<open>0\<close>
  and \<^verbatim>\<open>NaN\<close> stop the conjunction.
\<close>

fun truthy_and :: "number option \<Rightarrow> (number \<Rightarrow> bool) \<Rightarrow> bool" where
  "truthy_and None p = False"
| "truthy_and (Some t) p = (truthy t \<and> p t)"

section \<open>utils.ts: the alert evaluator\<close>

text \<open>
  \<^verbatim>\<open>
  export function isValueOutOfRange(value, upperThreshold?, lowerThreshold?): boolean {
    if (value === null) return false;
    if (upperThreshold && value > upperThreshold) return true;
    if (lowerThreshold && value < lowerThreshold) return true;
    return false;
  }
  \<close>
\<close>

fun isValueOutOfRange :: "number option \<Rightarrow> number option \<Rightarrow> number option \<Rightarrow> bool" where
  "isValueOutOfRange None upperThreshold lowerThreshold = False"
| "isValueOutOfRange (Some v) upperThreshold lowerThreshold =
     (if truthy_and upperThreshold (\<lambda>u. gt v u) then True
      else if truthy_and lowerThreshold (\<lambda>l. lt v l) then True
      else False)"

section \<open>Regular expressions of the condition parser\<close>

text \<open>
  \<^verbatim>\<open>String.prototype.match\<close> with a non-global pattern returns the leftmost match, found
  by backtracking: a greedy quantifier tries the longest run first, an alternation its
  left branch first. The patterns of \<^verbatim>\<open>parseAlertCondition\<close> use literals, character
  classes under \<^verbatim>\<open>+\<close> and \<^verbatim>\<open>*\<close>, one alternation and one capture group each, so
  the model has exactly these constructs. A character is a code unit below 256.
\<close>

datatype cclass = AnyBut char | DigitOrDot | Space

fun in_class :: "cclass \<Rightarrow> char \<Rightarrow> bool" where
  "in_class (AnyBut c) x = (x \<noteq> c)"
| "in_class DigitOrDot x = (x \<in> set ''0123456789.'')"
| "in_class Space x =
     (x \<in> set [CHR 0x20, CHR 0x09, CHR 0x0A, CHR 0x0B, CHR 0x0C, CHR 0x0D, CHR 0xA0])"

datatype regex =
    Lit string
  | Rep cclass nat
  | Alt regex regex
  | Seq regex regex
  | Group regex

text \<open>
  \<open>rmatch r s\<close> lists every way \<open>r\<close> matches a prefix of \<open>s\<close>, in the order the
  backtracking matcher tries them: the rest of the input and the text of the capture
  group, if it took part. \<open>Rep c n\<close> is the class \<open>c\<close> repeated at least \<open>n\<close> times,
  greedily.
\<close>

fun rmatch :: "regex \<Rightarrow> string \<Rightarrow> (string \<times> string option) list" where
  "rmatch (Lit l) s = (if take (length l) s = l then [(drop (length l) s, None)] else [])"
| "rmatch (Rep c n) s =
     map (\<lambda>j. (drop j s, None)) (rev [n ..< Suc (length (takeWhile (in_class c) s))])"
| "rmatch (Alt a b) s = rmatch a s @ rmatch b s"
| "rmatch (Seq a b) s =
     concat (map (\<lambda>(r, c). map (\<lambda>(r', c'). (r', case c' of None \<Rightarrow> c | Some x \<Rightarrow> Some x))
                                 (rmatch b r))
                 (rmatch a s))"
| "rmatch (Group a) s = map (\<lambda>(r, c). (r, Some (take (length s - length r) s))) (rmatch a s)"

text \<open>
  \<open>js_match r s\<close> is \<^verbatim>\<open>s.match(r)\<close> read at index 1: \<open>None\<close> for \<^verbatim>\<open>null\<close> (no match
  at any start position), otherwise the capture group of the leftmost match.
\<close>

fun js_match :: "regex \<Rightarrow> string \<Rightarrow> string option option" where
  "js_match r [] = (case rmatch r [] of [] \<Rightarrow> None | (_, c) # _ \<Rightarrow> Some c)"
| "js_match r (x # xs) =
     (case rmatch r (x # xs) of [] \<Rightarrow> js_match r xs | (_, c) # _ \<Rightarrow> Some c)"

text \<open>\<^verbatim>\<open>/\$\{monitor:([^}]+)\}/\<close>\<close>

definition monitorIdRe :: regex where
  "monitorIdRe = Seq (Lit ''${monitor:'') (Seq (Group (Rep (AnyBut CHR ''}'') 1)) (Lit ''}''))"

text \<open>\<^verbatim>\<open>(?:\$\{monitor:[^}]+\}|value)\<close>, the reference in front of an operator.\<close>

definition referenceRe :: regex where
  "referenceRe =
     Alt (Seq (Lit ''${monitor:'') (Seq (Rep (AnyBut CHR ''}'') 1) (Lit ''}''))) (Lit ''value'')"

text \<open>\<^verbatim>\<open>/(?:\$\{monitor:[^}]+\}|value)\s*>\s*([0-9.]+)/\<close>\<close>

definition upperRe :: regex where
  "upperRe =
     Seq referenceRe (Seq (Rep Space 0) (Seq (Lit ''>'') (Seq (Rep Space 0)
       (Group (Rep DigitOrDot 1)))))"

text \<open>\<^verbatim>\<open>/(?:\$\{monitor:[^}]+\}|value)\s*<\s*([0-9.]+)/\<close>\<close>

definition lowerRe :: regex where
  "lowerRe =
     Seq referenceRe (Seq (Rep Space 0) (Seq (Lit ''<'') (Seq (Rep Space 0)
       (Group (Rep DigitOrDot 1)))))"

section \<open>parseFloat on a run of digits and dots\<close>

text \<open>
  The capture group \<^verbatim>\<open>([0-9.]+)\<close> holds digits and dots only. On such a string
  \<^verbatim>\<open>parseFloat\<close> reads the leading digits, then one dot and the digits after it, and
  stops at a second dot; with no digit read the result is \<^verbatim>\<open>NaN\<close> (as for \<^verbatim>\<open>"."\<close>).
  A group that did not take part is \<^verbatim>\<open>undefined\<close>, which \<^verbatim>\<open>parseFloat\<close> turns into
  \<^verbatim>\<open>NaN\<close>.
\<close>

definition is_digit :: "char \<Rightarrow> bool" where
  "is_digit c = (c \<in> set ''0123456789'')"

definition digit_val :: "char \<Rightarrow> nat" where
  "digit_val c = of_char c - 48"

definition digits_val :: "string \<Rightarrow> nat" where
  "digits_val ds = foldl (\<lambda>a c. 10 * a + digit_val c) 0 ds"

definition parseFloat :: "string option \<Rightarrow> number" where
  "parseFloat arg =
     (case arg of
        None \<Rightarrow> NaN
      | Some s \<Rightarrow>
          (let ip = takeWhile is_digit s;
               rest = dropWhile is_digit s;
               fp = (case rest of
                       [] \<Rightarrow> []
                     | c # t \<Rightarrow> if c = CHR ''.'' then takeWhile is_digit t else [])
           in if ip = [] \<and> fp = [] then NaN
              else Num (real (digits_val ip) + real (digits_val fp) / 10 ^ length fp)))"

section \<open>api.ts: the adapter of the formula-based backend\<close>

record ApiMonitor =
  am_id :: string
  am_name :: string
  am_formula :: string
  am_unit :: "string option"
  am_description :: "string option"
  am_color :: "string option"
  am_decimal_places :: int
  am_enabled :: bool
  am_value :: "number option"
  am_computed_at :: string
  am_created_at :: string
  am_updated_at :: string

record ApiAlertRule =
  ar_id :: string
  ar_name :: string
  ar_condition :: string
  ar_level :: string
  ar_enabled :: bool
  ar_cooldown_seconds :: int
  ar_actions :: "string list"
  ar_created_at :: string
  ar_updated_at :: string

record AlertConfig =
  monitor_id :: string
  upper_threshold :: "number option"
  lower_threshold :: "number option"
  alert_level :: string
  created_at :: string
  updated_at :: string

text \<open>The object \<^verbatim>\<open>parseAlertCondition\<close> returns.\<close>

record ParsedCondition =
  p_upper_threshold :: "number option"
  p_lower_threshold :: "number option"
  p_monitor_id :: "string option"

text \<open>Truthiness of a \<^verbatim>\<open>string | null | undefined\<close>: the empty string is falsy too.\<close>

fun truthy_string :: "string option \<Rightarrow> bool" where
  "truthy_string None = False"
| "truthy_string (Some s) = (s \<noteq> [])"

text \<open>
  \<^verbatim>\<open>
  private parseAlertCondition(condition: string, monitorId?: string) {
    let upper_threshold = null; let lower_threshold = null; let monitor_id = null;
    const monitorIdMatch = condition.match(/\$\{monitor:([^}]+)\}/);
    if (monitorIdMatch) { monitor_id = monitorIdMatch[1]; }
    if (monitorId && monitor_id && monitor_id !== monitorId) {
      return { upper_threshold: null, lower_threshold: null, monitor_id: null };
    }
    const upperMatch = condition.match(/(?:\$\{monitor:[^}]+\}|value)\s*>\s*([0-9.]+)/);
    const lowerMatch = condition.match(/(?:\$\{monitor:[^}]+\}|value)\s*<\s*([0-9.]+)/);
    if (upperMatch) { upper_threshold = parseFloat(upperMatch[1]); }
    if (lowerMatch) { lower_threshold = parseFloat(lowerMatch[1]); }
    return { upper_threshold, lower_threshold, monitor_id };
  }
  \<close>
\<close>

definition parseAlertCondition :: "string \<Rightarrow> string option \<Rightarrow> ParsedCondition" where
  "parseAlertCondition condition monitorId =
     (let monitor_id = (case js_match monitorIdRe condition of None \<Rightarrow> None | Some g \<Rightarrow> g)
      in if truthy_string monitorId \<and> truthy_string monitor_id \<and> monitor_id \<noteq> monitorId
         then \<lparr>p_upper_threshold = None, p_lower_threshold = None, p_monitor_id = None\<rparr>
         else \<lparr>p_upper_threshold = map_option parseFloat (js_match upperRe condition),
               p_lower_threshold = map_option parseFloat (js_match lowerRe condition),
               p_monitor_id = monitor_id\<rparr>)"

text \<open>The interface the views consume.\<close>

record MonitorSummary =
  ms_monitor_id :: string
  ms_monitor_name :: "string option"
  ms_monitor_type :: "string option"
  ms_url :: string
  ms_unit :: "string option"
  ms_color :: "string option"
  ms_description :: "string option"
  ms_tags :: "string option"
  ms_total_records :: int
  ms_latest_value :: "number option"
  ms_latest_timestamp :: string
  ms_min_value :: "number option"
  ms_max_value :: "number option"
  ms_avg_value :: "number option"
  ms_change_count :: int

text \<open>
  \<^verbatim>\<open>this.request\<close> either resolves with the decoded body or throws (transport failure,
  a response that is not ok); its outcome is a value of \<open>error + 'a\<close>.
\<close>

datatype error = Error string

definition transformMonitor :: "ApiMonitor \<Rightarrow> MonitorSummary" where
  "transformMonitor apiMonitor =
     \<lparr>ms_monitor_id = am_id apiMonitor,
      ms_monitor_name = Some (am_name apiMonitor),
      ms_monitor_type = Some ''monitor'',
      ms_url = [],
      ms_unit = am_unit apiMonitor,
      ms_color = am_color apiMonitor,
      ms_description = am_description apiMonitor,
      ms_tags = None,
      ms_total_records = 0,
      ms_latest_value = am_value apiMonitor,
      ms_latest_timestamp =
        (if am_computed_at apiMonitor \<noteq> [] then am_computed_at apiMonitor
         else am_updated_at apiMonitor),
      ms_min_value = None,
      ms_max_value = None,
      ms_avg_value = None,
      ms_change_count = 0\<rparr>"

text \<open>
  \<^verbatim>\<open>
  async getMonitors(): Promise<MonitorSummary[]> {
    try {
      const apiMonitors = await this.request<ApiMonitor[]>("/api/monitors");
      return apiMonitors.map((m) => this.transformMonitor(m));
    } catch (error) { console.error(...); return []; }
  }
  \<close>
  The argument is the outcome of the request; \<open>Inl\<close> in the result would be a rejected
  promise.
\<close>

definition getMonitors :: "error + ApiMonitor list \<Rightarrow> error + MonitorSummary list" where
  "getMonitors response =
     (case response of
        Inl e \<Rightarrow> Inr []
      | Inr apiMonitors \<Rightarrow> Inr (map transformMonitor apiMonitors))"

text \<open>The object literal pushed by \<^verbatim>\<open>getAlertConfigs\<close>, in both of its branches.\<close>

definition mkConfig :: "ParsedCondition \<Rightarrow> ApiAlertRule \<Rightarrow> ApiMonitor \<Rightarrow> AlertConfig" where
  "mkConfig p rule monitor =
     \<lparr>monitor_id = am_id monitor,
      upper_threshold = p_upper_threshold p,
      lower_threshold = p_lower_threshold p,
      alert_level = ar_level rule,
      created_at = ar_created_at rule,
      updated_at = ar_updated_at rule\<rparr>"

text \<open>
  One turn of \<^verbatim>\<open>for (const rule of alertRules)\<close>: the array \<^verbatim>\<open>configs\<close> before the
  turn, and after it.
  \<^verbatim>\<open>
  if (!rule.enabled) continue;
  const { upper_threshold, lower_threshold, monitor_id } = this.parseAlertCondition(rule.condition);
  if (upper_threshold === null && lower_threshold === null) continue;
  if (monitor_id) {
    const monitor = monitors.find((m) => m.id === monitor_id);
    if (monitor) { configs.push({ monitor_id: monitor.id, ... }); }
  } else {
    for (const monitor of monitors) { configs.push({ monitor_id: monitor.id, ... }); }
  }
  \<close>
\<close>

definition processRule :: "ApiMonitor list \<Rightarrow> AlertConfig list \<Rightarrow> ApiAlertRule \<Rightarrow> AlertConfig list" where
  "processRule monitors configs rule =
     (if \<not> ar_enabled rule then configs
      else
        (let p = parseAlertCondition (ar_condition rule) None
         in if p_upper_threshold p = None \<and> p_lower_threshold p = None then configs
            else if truthy_string (p_monitor_id p) then
              (case find (\<lambda>m. Some (am_id m) = p_monitor_id p) monitors of
                 None \<Rightarrow> configs
               | Some monitor \<Rightarrow> configs @ [mkConfig p rule monitor])
            else foldl (\<lambda>cs monitor. cs @ [mkConfig p rule monitor]) configs monitors))"

text \<open>\<^verbatim>\<open>Promise.all\<close> of two requests: rejected as soon as one of them is.\<close>

fun promise_all :: "error + 'a \<Rightarrow> error + 'b \<Rightarrow> error + ('a \<times> 'b)" where
  "promise_all (Inl e) _ = Inl e"
| "promise_all (Inr a) (Inl e) = Inl e"
| "promise_all (Inr a) (Inr b) = Inr (a, b)"

text \<open>
  \<^verbatim>\<open>
  async getAlertConfigs(): Promise<AlertConfig[]> {
    try {
      const [alertRules, monitors] = await Promise.all([
        this.request<ApiAlertRule[]>("/api/alert-rules"),
        this.request<ApiMonitor[]>("/api/monitors")]);
      const configs: AlertConfig[] = [];
      for (const rule of alertRules) { ... }
      return configs;
    } catch (error) { console.warn(...); return []; }
  }
  \<close>
\<close>

definition getAlertConfigs ::
  "error + ApiAlertRule list \<Rightarrow> error + ApiMonitor list \<Rightarrow> error + AlertConfig list" where
  "getAlertConfigs rulesResponse monitorsResponse =
     (case promise_all rulesResponse monitorsResponse of
        Inl e \<Rightarrow> Inr []
      | Inr (alertRules, monitors) \<Rightarrow> Inr (foldl (processRule monitors) [] alertRules))"

text \<open>
  The request body posted by \<^verbatim>\<open>updateAlertConfig\<close> (before \<^verbatim>\<open>JSON.stringify\<close>).
\<close>

record AlertRuleRequest =
  rq_name :: string
  rq_condition :: string
  rq_level :: string
  rq_enabled :: bool
  rq_cooldown_seconds :: int
  rq_actions :: "string list"

text \<open>\<^verbatim>\<open>Array.prototype.join\<close> on strings.\<close>

fun join :: "string \<Rightarrow> string list \<Rightarrow> string" where
  "join sep [] = []"
| "join sep [x] = x"
| "join sep (x # y # ys) = x @ sep @ join sep (y # ys)"

text \<open>
  A number inside a template literal. An integral value below \<^verbatim>\<open>1e21\<close> in magnitude is
  printed as its decimal digits, \<^verbatim>\<open>NaN\<close> as \<^verbatim>\<open>"NaN"\<close>; the digits of any other value
  (the shortest string that reads back as the same double) are left to the parameter
  \<open>fractional\<close>.
\<close>

function nat_to_string :: "nat \<Rightarrow> string" where
  "nat_to_string n =
     (if n < 10 then [''0123456789'' ! n]
      else nat_to_string (n div 10) @ [''0123456789'' ! (n mod 10)])"
  by pat_completeness auto
termination
  by (relation "measure (\<lambda>n. n)") auto

declare nat_to_string.simps [simp del]

definition numberToString :: "(real \<Rightarrow> string) \<Rightarrow> number \<Rightarrow> string" where
  "numberToString fractional n =
     (case n of
        NaN \<Rightarrow> ''NaN''
      | Num r \<Rightarrow>
          if r = real_of_int \<lfloor>r\<rfloor> \<and> \<bar>r\<bar> < 10 ^ 21
          then (if r < 0 then ''-'' else []) @ nat_to_string (nat \<bar>\<lfloor>r\<rfloor>\<bar>)
          else fractional r)"

text \<open>
  \<^verbatim>\<open>
  const conditions: string[] = [];
  if (upperThreshold !== undefined) { conditions.push(`value > ${upperThreshold}`); }
  if (lowerThreshold !== undefined) { conditions.push(`value < ${lowerThreshold}`); }
  const condition = conditions.join(" OR ");
  \<close>
\<close>

definition buildCondition :: "(real \<Rightarrow> string) \<Rightarrow> number option \<Rightarrow> number option \<Rightarrow> string" where
  "buildCondition fractional upperThreshold lowerThreshold =
     join '' OR ''
       ((case upperThreshold of
           None \<Rightarrow> []
         | Some u \<Rightarrow> [''value > '' @ numberToString fractional u])
        @ (case lowerThreshold of
             None \<Rightarrow> []
           | Some l \<Rightarrow> [''value < '' @ numberToString fractional l]))"

text \<open>The default parameter \<^verbatim>\<open>alertLevel: string = "medium"\<close>.\<close>

definition alertLevel_or_default :: "string option \<Rightarrow> string" where
  "alertLevel_or_default alertLevel = (case alertLevel of None \<Rightarrow> ''medium'' | Some l \<Rightarrow> l)"

definition alertRuleRequest ::
  "(real \<Rightarrow> string) \<Rightarrow> string \<Rightarrow> number option \<Rightarrow> number option \<Rightarrow> string option
     \<Rightarrow> AlertRuleRequest" where
  "alertRuleRequest fractional monitorId upperThreshold lowerThreshold alertLevel =
     \<lparr>rq_name = ''Alert for '' @ monitorId,
      rq_condition = buildCondition fractional upperThreshold lowerThreshold,
      rq_level = alertLevel_or_default alertLevel,
      rq_enabled = True,
      rq_cooldown_seconds = 300,
      rq_actions = []\<rparr>"

text \<open>\<^verbatim>\<open>x || null\<close> for an optional number.\<close>

fun or_null :: "number option \<Rightarrow> number option" where
  "or_null None = None"
| "or_null (Some n) = (if truthy n then Some n else None)"

text \<open>
  \<^verbatim>\<open>
  async updateAlertConfig(monitorId, upperThreshold?, lowerThreshold?, alertLevel = "medium") {
    ...
    try {
      const rule = await this.request<ApiAlertRule>("/api/alert-rules",
        { method: "POST", body: JSON.stringify({ name: `Alert for ${monitorId}`, condition,
            level: alertLevel, enabled: true, cooldown_seconds: 300, actions: [] }) });
      return { monitor_id: monitorId,
               upper_threshold: upperThreshold || null,
               lower_threshold: lowerThreshold || null,
               alert_level: rule.level, created_at: rule.created_at, updated_at: rule.updated_at };
    } catch (error) { console.error(...); throw error; }
  }
  \<close>
  The backend is the parameter \<open>request\<close>: from the endpoint and the posted body to the
  outcome of the call.
\<close>

definition updateAlertConfig ::
  "(real \<Rightarrow> string) \<Rightarrow> (string \<Rightarrow> AlertRuleRequest \<Rightarrow> error + ApiAlertRule) \<Rightarrow> string
     \<Rightarrow> number option \<Rightarrow> number option \<Rightarrow> string option \<Rightarrow> error + AlertConfig" where
  "updateAlertConfig fractional request monitorId upperThreshold lowerThreshold alertLevel =
     (case request ''/api/alert-rules''
             (alertRuleRequest fractional monitorId upperThreshold lowerThreshold alertLevel) of
        Inl e \<Rightarrow> Inl e
      | Inr rule \<Rightarrow>
          Inr \<lparr>monitor_id = monitorId,
               upper_threshold = or_null upperThreshold,
               lower_threshold = or_null lowerThreshold,
               alert_level = ar_level rule,
               created_at = ar_created_at rule,
               updated_at = ar_updated_at rule\<rparr>)"

section \<open>list-monitors.tsx and view-alerts.tsx: the custom sort order\<close>

text \<open>\<^verbatim>\<open>Array.prototype.indexOf\<close>: the first position of \<open>x\<close>, or \<open>-1\<close>.\<close>

fun indexOf :: "'a list \<Rightarrow> 'a \<Rightarrow> int" where
  "indexOf [] x = -1"
| "indexOf (y # ys) x =
     (if y = x then 0
      else (let i = indexOf ys x in if i = -1 then -1 else i + 1))"

text \<open>
  \<^verbatim>\<open>Array.prototype.sort\<close> with a comparator is stable. For a consistent comparator its
  result is fixed by the language: the arrangement in comparator order in which
  elements that compare equal keep their input order. Insertion from the right computes
  that arrangement: an element is placed in front of the first element it does not
  compare greater than.
\<close>

fun sort_insert :: "('a \<Rightarrow> 'a \<Rightarrow> int) \<Rightarrow> 'a \<Rightarrow> 'a list \<Rightarrow> 'a list" where
  "sort_insert cmp x [] = [x]"
| "sort_insert cmp x (y # ys) =
     (if cmp x y \<le> 0 then x # y # ys else y # sort_insert cmp x ys)"

fun array_sort :: "('a \<Rightarrow> 'a \<Rightarrow> int) \<Rightarrow> 'a list \<Rightarrow> 'a list" where
  "array_sort cmp [] = []"
| "array_sort cmp (x # xs) = sort_insert cmp x (array_sort cmp xs)"

text \<open>\<^verbatim>\<open>a.monitor_name || a.monitor_id\<close>\<close>

definition name_or_id :: "MonitorSummary \<Rightarrow> string" where
  "name_or_id m =
     (case ms_monitor_name m of
        None \<Rightarrow> ms_monitor_id m
      | Some n \<Rightarrow> if n \<noteq> [] then n else ms_monitor_id m)"

text \<open>
  The \<^verbatim>\<open>case "custom"\<close> block of the comparator of \<^verbatim>\<open>sortedMonitors\<close>
  (list-monitors.tsx). \<^verbatim>\<open>toLowerCase\<close> and \<^verbatim>\<open>localeCompare\<close> belong to the engine and
  its locale; they are parameters.
  \<^verbatim>\<open>
  const indexA = customOrder.indexOf(a.monitor_id);
  const indexB = customOrder.indexOf(b.monitor_id);
  if (indexA !== -1 && indexB !== -1) { return indexA - indexB; }
  if (indexA !== -1) return -1;
  if (indexB !== -1) return 1;
  const nameA = (a.monitor_name || a.monitor_id).toLowerCase();
  const nameB = (b.monitor_name || b.monitor_id).toLowerCase();
  return nameA.localeCompare(nameB);
  \<close>
\<close>

definition compareMonitorsCustom ::
  "(string \<Rightarrow> string) \<Rightarrow> (string \<Rightarrow> string \<Rightarrow> int) \<Rightarrow> string list
     \<Rightarrow> MonitorSummary \<Rightarrow> MonitorSummary \<Rightarrow> int" where
  "compareMonitorsCustom toLowerCase localeCompare customOrder a b =
     (let indexA = indexOf customOrder (ms_monitor_id a);
          indexB = indexOf customOrder (ms_monitor_id b)
      in if indexA \<noteq> -1 \<and> indexB \<noteq> -1 then indexA - indexB
         else if indexA \<noteq> -1 then -1
         else if indexB \<noteq> -1 then 1
         else localeCompare (toLowerCase (name_or_id a)) (toLowerCase (name_or_id b)))"

text \<open>\<^verbatim>\<open>[...monitors].sort(...)\<close> with \<^verbatim>\<open>sortBy === "custom"\<close>.\<close>

definition sortedMonitors ::
  "(string \<Rightarrow> string) \<Rightarrow> (string \<Rightarrow> string \<Rightarrow> int) \<Rightarrow> string list
     \<Rightarrow> MonitorSummary list \<Rightarrow> MonitorSummary list" where
  "sortedMonitors toLowerCase localeCompare customOrder monitors =
     array_sort (compareMonitorsCustom toLowerCase localeCompare customOrder) monitors"

record AlertItem =
  ai_monitor :: MonitorSummary
  ai_config :: AlertConfig
  ai_isActive :: bool

text \<open>
  The \<^verbatim>\<open>case "custom"\<close> block of the comparator of \<^verbatim>\<open>sortedAlertItems\<close>
  (view-alerts.tsx): as above on \<^verbatim>\<open>a.monitor\<close> and \<^verbatim>\<open>b.monitor\<close>, with the alert
  status ahead of the name among the unlisted.
  \<^verbatim>\<open>
  if (a.isActive !== b.isActive) return a.isActive ? -1 : 1;
  \<close>
\<close>

definition compareAlertItemsCustom ::
  "(string \<Rightarrow> string) \<Rightarrow> (string \<Rightarrow> string \<Rightarrow> int) \<Rightarrow> string list
     \<Rightarrow> AlertItem \<Rightarrow> AlertItem \<Rightarrow> int" where
  "compareAlertItemsCustom toLowerCase localeCompare customOrder a b =
     (let indexA = indexOf customOrder (ms_monitor_id (ai_monitor a));
          indexB = indexOf customOrder (ms_monitor_id (ai_monitor b))
      in if indexA \<noteq> -1 \<and> indexB \<noteq> -1 then indexA - indexB
         else if indexA \<noteq> -1 then -1
         else if indexB \<noteq> -1 then 1
         else if ai_isActive a \<noteq> ai_isActive b then (if ai_isActive a then -1 else 1)
         else localeCompare (toLowerCase (name_or_id (ai_monitor a)))
                            (toLowerCase (name_or_id (ai_monitor b))))"

definition sortedAlertItems ::
  "(string \<Rightarrow> string) \<Rightarrow> (string \<Rightarrow> string \<Rightarrow> int) \<Rightarrow> string list
     \<Rightarrow> AlertItem list \<Rightarrow> AlertItem list" where
  "sortedAlertItems toLowerCase localeCompare customOrder alertItems =
     array_sort (compareAlertItemsCustom toLowerCase localeCompare customOrder) alertItems"

text \<open>
  What the custom order asks of two monitor ids \<open>a\<close> and \<open>b\<close> when \<open>a\<close> stands before
  \<open>b\<close> in the output: a listed \<open>b\<close> has a listed \<open>a\<close> before it, and two listed ids
  stand as their first positions in the custom-order list do.
\<close>

definition custom_before :: "string list \<Rightarrow> string \<Rightarrow> string \<Rightarrow> bool" where
  "custom_before customOrder a b =
     ((b \<in> set customOrder \<longrightarrow> a \<in> set customOrder) \<and>
      (a \<in> set customOrder \<and> b \<in> set customOrder \<longrightarrow>
         indexOf customOrder a \<le> indexOf customOrder b))"

section \<open>Sample data\<close>

definition sample_monitor :: "string \<Rightarrow> ApiMonitor" where
  "sample_monitor i =
     \<lparr>am_id = i, am_name = ''Monitor '' @ i, am_formula = ''1'', am_unit = None,
      am_description = None, am_color = None, am_decimal_places = 2, am_enabled = True,
      am_value = Some (Num 150), am_computed_at = ''2024-01-01T00:00:00'',
      am_created_at = ''2024-01-01T00:00:00'', am_updated_at = ''2024-01-01T00:00:00''\<rparr>"

definition sample_rule :: "string \<Rightarrow> bool \<Rightarrow> ApiAlertRule" where
  "sample_rule c e =
     \<lparr>ar_id = ''r1'', ar_name = ''rule'', ar_condition = c, ar_level = ''high'',
      ar_enabled = e, ar_cooldown_seconds = 300, ar_actions = [],
      ar_created_at = ''2024-01-01T00:00:00'', ar_updated_at = ''2024-01-02T00:00:00''\<rparr>"

definition sample_config :: "string \<Rightarrow> number option \<Rightarrow> number option \<Rightarrow> AlertConfig" where
  "sample_config i u l =
     \<lparr>monitor_id = i, upper_threshold = u, lower_threshold = l, alert_level = ''high'',
      created_at = ''2024-01-01T00:00:00'', updated_at = ''2024-01-02T00:00:00''\<rparr>"

definition sample_summary :: "string \<Rightarrow> MonitorSummary" where
  "sample_summary i = transformMonitor (sample_monitor i)"

definition sample_item :: "string \<Rightarrow> bool \<Rightarrow> AlertItem" where
  "sample_item i active =
     \<lparr>ai_monitor = sample_summary i,
      ai_config = sample_config i (Some (Num 100)) None,
      ai_isActive = active\<rparr>"

text \<open>A backend that accepts every posted rule and echoes its condition and level.\<close>

definition sample_backend :: "string \<Rightarrow> AlertRuleRequest \<Rightarrow> error + ApiAlertRule" where
  "sample_backend endpoint body =
     Inr ((sample_rule (rq_condition body) (rq_enabled body))\<lparr>ar_level := rq_level body\<rparr>)"

text \<open>
  A backend that accepts a rule only at the alert-rule endpoint and only with the
  condition \<open>expected\<close>, and one that fails every call.
\<close>

definition sample_strict_backend ::
  "string \<Rightarrow> string \<Rightarrow> AlertRuleRequest \<Rightarrow> error + ApiAlertRule" where
  "sample_strict_backend expected endpoint body =
     (if endpoint = ''/api/alert-rules'' \<and> rq_condition body = expected
      then sample_backend endpoint body
      else Inl (Error ''400''))"

definition sample_failing_backend :: "string \<Rightarrow> AlertRuleRequest \<Rightarrow> error + ApiAlertRule" where
  "sample_failing_backend endpoint body = Inl (Error ''500'')"

section \<open>Properties of the alert evaluator\<close>

text \<open>
  C1 (as the evaluator computes it): a lower threshold of exactly 0 is dropped by the
  truthiness test, so \<^verbatim>\<open>isValueOutOfRange(-1, null, 0)\<close> is \<^verbatim>\<open>false\<close>, where the
  specification asks for \<^verbatim>\<open>true\<close>.
\<close>

theorem isValueOutOfRange_zero_lower_ignored:
  "isValueOutOfRange (Some (Num (-1))) None (Some (Num 0)) = False
   \<and> isValueOutOfRange (Some v) None (Some (Num 0)) = False"
  by simp

text \<open>
  C9: whatever the upper and lower thresholds are, a \<^verbatim>\<open>null\<close> value is never out of
  range.
\<close>

theorem isValueOutOfRange_null_value:
  "isValueOutOfRange None upperThreshold lowerThreshold = False"
  by simp

section \<open>The loop of getAlertConfigs\<close>

lemma foldl_push: "foldl (\<lambda>cs m. cs @ [f m]) acc ms = acc @ map f ms"
  by (induction ms arbitrary: acc) simp_all

lemma processRule_append: "processRule monitors configs rule = configs @ processRule monitors [] rule"
  by (simp add: processRule_def Let_def foldl_push split: option.splits)

lemma foldl_processRule:
  "foldl (processRule monitors) configs rules = configs @ concat (map (processRule monitors []) rules)"
proof (induction rules arbitrary: configs)
  case Nil
  show ?case by simp
next
  case (Cons r rs)
  have "foldl (processRule monitors) configs (r # rs)
        = foldl (processRule monitors) (processRule monitors configs r) rs" by simp
  also have "\<dots> = processRule monitors configs r @ concat (map (processRule monitors []) rs)"
    by (rule Cons.IH)
  also have "\<dots> = configs @ concat (map (processRule monitors []) (r # rs))"
    using processRule_append [of monitors configs r] by simp
  finally show ?case .
qed

lemmas regex_defs = monitorIdRe_def upperRe_def lowerRe_def referenceRe_def
lemmas parse_defs = parseAlertCondition_def regex_defs parseFloat_def is_digit_def digits_val_def digit_val_def

section \<open>The monitor id captured by the parser is never empty\<close>

lemma in_rmatch_Seq:
  "(r', d) \<in> set (rmatch (Seq a b) s) \<longleftrightarrow>
     (\<exists>r c c'. (r, c) \<in> set (rmatch a s) \<and> (r', c') \<in> set (rmatch b r) \<and>
        d = (case c' of None \<Rightarrow> c | Some x \<Rightarrow> Some x))"
  by force

lemma in_rmatch_Lit: "(r, c) \<in> set (rmatch (Lit l) s) \<Longrightarrow> c = None"
  by (simp split: if_splits)

lemma in_rmatch_Group_Rep:
  assumes "(r, c) \<in> set (rmatch (Group (Rep cls (Suc n))) s)"
  shows "\<exists>t. c = Some t \<and> t \<noteq> []"
proof -
  from assms obtain j where j: "Suc n \<le> j" "j \<le> length (takeWhile (in_class cls) s)"
    and r: "r = drop j s" and c: "c = Some (take (length s - length r) s)"
    by auto
  have "j \<le> length s" using j(2) length_takeWhile_le [of "in_class cls" s] by linarith
  then have "take (length s - length r) s = take j s" using r by simp
  moreover have "take j s \<noteq> []" using j(1) \<open>j \<le> length s\<close> by auto
  ultimately show ?thesis using c by simp
qed

lemma rmatch_monitorIdRe_nonempty:
  assumes "(r, c) \<in> set (rmatch monitorIdRe s)"
  shows "\<exists>t. c = Some t \<and> t \<noteq> []"
proof -
  from assms obtain r1 c1 d where
    d: "(r, d) \<in> set (rmatch (Seq (Group (Rep (AnyBut CHR ''}'') 1)) (Lit ''}'')) r1)"
    and c: "c = (case d of None \<Rightarrow> c1 | Some x \<Rightarrow> Some x)"
    unfolding monitorIdRe_def in_rmatch_Seq by blast
  from d obtain r2 c2 c3 where
    g: "(r2, c2) \<in> set (rmatch (Group (Rep (AnyBut CHR ''}'') (Suc 0))) r1)"
    and l: "(r, c3) \<in> set (rmatch (Lit ''}'') r2)"
    and d': "d = (case c3 of None \<Rightarrow> c2 | Some x \<Rightarrow> Some x)"
    unfolding in_rmatch_Seq One_nat_def by blast
  from l have "c3 = None" by (rule in_rmatch_Lit)
  with d' have "d = c2" by simp
  moreover from g obtain t where "c2 = Some t" "t \<noteq> []"
    using in_rmatch_Group_Rep by blast
  ultimately show ?thesis using c by simp
qed

lemma js_match_in_rmatch:
  "js_match r s = Some c \<Longrightarrow> \<exists>s' rest. (rest, c) \<in> set (rmatch r s')"
proof (induction s)
  case Nil
  then obtain a ms where "rmatch r [] = (a, c) # ms"
    by (auto split: list.splits)
  then have "(a, c) \<in> set (rmatch r [])" by simp
  then show ?case by blast
next
  case (Cons x xs)
  show ?case
  proof (cases "rmatch r (x # xs)")
    case Nil
    with Cons show ?thesis by simp
  next
    case (Cons m ms)
    with Cons.prems have "(fst m, c) \<in> set (rmatch r (x # xs))"
      by (cases m) auto
    then show ?thesis by blast
  qed
qed

lemma parseAlertCondition_monitor_id_nonempty:
  assumes "p_monitor_id (parseAlertCondition condition monitorId) = Some t"
  shows "t \<noteq> []"
proof -
  from assms have "js_match monitorIdRe condition = Some (Some t)"
    by (auto simp: parseAlertCondition_def Let_def split: if_splits option.splits)
  then obtain s' rest where "(rest, Some t) \<in> set (rmatch monitorIdRe s')"
    using js_match_in_rmatch by blast
  then show ?thesis using rmatch_monitorIdRe_nonempty by blast
qed


section \<open>Properties of the adapter\<close>

lemma truthy_parsed_monitor_id:
  "truthy_string (p_monitor_id (parseAlertCondition condition monitorId)) \<longleftrightarrow>
     p_monitor_id (parseAlertCondition condition monitorId) \<noteq> None"
  using parseAlertCondition_monitor_id_nonempty [of condition monitorId]
  by (cases "p_monitor_id (parseAlertCondition condition monitorId)") auto

lemma getAlertConfigs_Inr:
  "getAlertConfigs (Inr rules) (Inr monitors) = Inr (concat (map (processRule monitors []) rules))"
  by (simp add: getAlertConfigs_def foldl_processRule)

lemma find_by_id_None:
  "mid \<notin> am_id ` set monitors \<Longrightarrow> find (\<lambda>m. am_id m = mid) monitors = None"
  by (auto simp: find_None_iff)

lemma find_by_id_Some:
  "find (\<lambda>m. am_id m = mid) monitors = Some m \<Longrightarrow> am_id m = mid"
  by (induction monitors) (auto split: if_splits)

text \<open>
  A threshold of 0 does reach the evaluator: the condition \<^verbatim>\<open>"value < 0"\<close> parses to
  the lower threshold 0.
\<close>

lemma zero_threshold_parsed:
  "parseAlertCondition ''value < 0'' None =
     \<lparr>p_upper_threshold = None, p_lower_threshold = Some (Num 0), p_monitor_id = None\<rparr>"
  by (simp add: parse_defs)

text \<open>
  C2: the three reference conditions. \<^verbatim>\<open>"${monitor:m1} > 100"\<close> parses to monitor
  \<^verbatim>\<open>m1\<close>, upper threshold 100 and no lower threshold; \<^verbatim>\<open>"value < 5"\<close> to no monitor
  id, lower threshold 5 and no upper threshold; \<^verbatim>\<open>"foo bar"\<close> to no threshold at all,
  so a rule with that condition leaves \<^verbatim>\<open>configs\<close> as it was and \<^verbatim>\<open>getAlertConfigs\<close>
  returns no config for it.
\<close>

theorem parseAlertCondition_reference_examples:
  "parseAlertCondition ''${monitor:m1} > 100'' None =
     \<lparr>p_upper_threshold = Some (Num 100), p_lower_threshold = None, p_monitor_id = Some ''m1''\<rparr>
   \<and> parseAlertCondition ''value < 5'' None =
     \<lparr>p_upper_threshold = None, p_lower_threshold = Some (Num 5), p_monitor_id = None\<rparr>
   \<and> parseAlertCondition ''foo bar'' None =
     \<lparr>p_upper_threshold = None, p_lower_threshold = None, p_monitor_id = None\<rparr>
   \<and> processRule monitors configs (rule\<lparr>ar_condition := ''foo bar''\<rparr>) = configs
   \<and> getAlertConfigs (Inr [rule\<lparr>ar_condition := ''foo bar''\<rparr>]) (Inr monitors) = Inr []"
proof -
  have 1: "parseAlertCondition ''${monitor:m1} > 100'' None =
     \<lparr>p_upper_threshold = Some (Num 100), p_lower_threshold = None, p_monitor_id = Some ''m1''\<rparr>"
    by (simp add: parse_defs)
  have 2: "parseAlertCondition ''value < 5'' None =
     \<lparr>p_upper_threshold = None, p_lower_threshold = Some (Num 5), p_monitor_id = None\<rparr>"
    by (simp add: parse_defs)
  have 3: "parseAlertCondition ''foo bar'' None =
     \<lparr>p_upper_threshold = None, p_lower_threshold = None, p_monitor_id = None\<rparr>"
    by (simp add: parse_defs)
  have 4: "processRule monitors configs (rule\<lparr>ar_condition := ''foo bar''\<rparr>) = configs" for configs
    by (simp add: processRule_def 3)
  have 5: "getAlertConfigs (Inr [rule\<lparr>ar_condition := ''foo bar''\<rparr>]) (Inr monitors) = Inr []"
    by (simp add: getAlertConfigs_def 4)
  from 1 2 3 4 5 show ?thesis by blast
qed

text \<open>
  C3: an enabled rule whose condition parses to at least one threshold and to no monitor
  id appends one config per fetched monitor, in the order of the monitor list, each with
  the rule's thresholds, level and dates; with \<open>n\<close> monitors that is \<open>n\<close> configs. In
  the result of \<^verbatim>\<open>getAlertConfigs\<close> they stand between the configs of the rules before
  and those of the rules after.
\<close>

theorem global_rule_one_config_per_monitor:
  assumes "ar_enabled rule"
    and "p = parseAlertCondition (ar_condition rule) None"
    and "p_upper_threshold p \<noteq> None \<or> p_lower_threshold p \<noteq> None"
    and "p_monitor_id p = None"
    and "emitted = map (\<lambda>monitor.
            \<lparr>monitor_id = am_id monitor,
             upper_threshold = p_upper_threshold p,
             lower_threshold = p_lower_threshold p,
             alert_level = ar_level rule,
             created_at = ar_created_at rule,
             updated_at = ar_updated_at rule\<rparr>) monitors"
  shows "processRule monitors configs rule = configs @ emitted
       \<and> length emitted = length monitors
       \<and> (\<exists>pre post.
            getAlertConfigs (Inr before) (Inr monitors) = Inr pre
          \<and> getAlertConfigs (Inr after) (Inr monitors) = Inr post
          \<and> getAlertConfigs (Inr (before @ rule # after)) (Inr monitors)
              = Inr (pre @ emitted @ post))"
proof -
  have e: "emitted = map (mkConfig p rule) monitors"
    using assms(5) by (simp add: mkConfig_def)
  have step: "processRule monitors cs rule = cs @ emitted" for cs
    using assms(1-4) by (auto simp: processRule_def Let_def foldl_push e)
  have "getAlertConfigs (Inr (before @ rule # after)) (Inr monitors)
      = Inr (concat (map (processRule monitors []) before) @ emitted
             @ concat (map (processRule monitors []) after))"
    using step [of "[]"] by (simp add: getAlertConfigs_Inr)
  then show ?thesis
    using step [of configs] assms(5) by (simp add: getAlertConfigs_Inr)
qed

text \<open>
  C4: a rule with \<^verbatim>\<open>enabled = false\<close> leaves \<^verbatim>\<open>configs\<close> unchanged whatever its
  condition is: the result of \<^verbatim>\<open>getAlertConfigs\<close> is the same as without the rule.
\<close>

theorem disabled_rule_no_config:
  assumes "\<not> ar_enabled rule"
  shows "processRule monitors configs rule = configs
       \<and> getAlertConfigs (Inr (before @ rule # after)) (Inr monitors)
           = getAlertConfigs (Inr (before @ after)) (Inr monitors)"
proof -
  have "processRule monitors cs rule = cs" for cs
    using assms by (simp add: processRule_def)
  then show ?thesis by (simp add: getAlertConfigs_Inr)
qed

text \<open>
  C5: an enabled rule whose condition parses to a threshold and to the monitor id \<open>mid\<close>
  appends exactly one config, for \<open>mid\<close>, when a fetched monitor has that id, and nothing
  when none has; no error is raised in either case.
\<close>

theorem monitor_rule_one_config_if_monitor_exists:
  assumes "ar_enabled rule"
    and "p = parseAlertCondition (ar_condition rule) None"
    and "p_upper_threshold p \<noteq> None \<or> p_lower_threshold p \<noteq> None"
    and "p_monitor_id p = Some mid"
    and "emitted =
          (if mid \<in> am_id ` set monitors
           then [\<lparr>monitor_id = mid,
                  upper_threshold = p_upper_threshold p,
                  lower_threshold = p_lower_threshold p,
                  alert_level = ar_level rule,
                  created_at = ar_created_at rule,
                  updated_at = ar_updated_at rule\<rparr>]
           else [])"
  shows "processRule monitors configs rule = configs @ emitted
       \<and> (\<exists>pre post.
            getAlertConfigs (Inr before) (Inr monitors) = Inr pre
          \<and> getAlertConfigs (Inr after) (Inr monitors) = Inr post
          \<and> getAlertConfigs (Inr (before @ rule # after)) (Inr monitors)
              = Inr (pre @ emitted @ post))"
proof -
  have t: "truthy_string (p_monitor_id p)"
    using assms(2,4) truthy_parsed_monitor_id [of "ar_condition rule" None] by simp
  have step: "processRule monitors cs rule = cs @ emitted" for cs
  proof (cases "mid \<in> am_id ` set monitors")
    case True
    then have "find (\<lambda>m. am_id m = mid) monitors \<noteq> None"
      by (auto simp: find_None_iff)
    then obtain m where m: "find (\<lambda>m. am_id m = mid) monitors = Some m"
      by blast
    then have "am_id m = mid" by (rule find_by_id_Some)
    with m True show ?thesis
      using assms t by (simp add: processRule_def Let_def mkConfig_def)
  next
    case False
    then show ?thesis
      using assms t by (simp add: processRule_def Let_def find_by_id_None)
  qed
  have "getAlertConfigs (Inr (before @ rule # after)) (Inr monitors)
      = Inr (concat (map (processRule monitors []) before) @ emitted
             @ concat (map (processRule monitors []) after))"
    using step [of "[]"] by (simp add: getAlertConfigs_Inr)
  then show ?thesis
    using step [of configs] by (simp add: getAlertConfigs_Inr)
qed

lemma processRule_thresholds:
  "c \<in> set (processRule monitors [] rule) \<Longrightarrow>
     upper_threshold c \<noteq> None \<or> lower_threshold c \<noteq> None"
  by (auto simp: processRule_def Let_def foldl_push mkConfig_def split: if_splits option.splits)

text \<open>
  C6: every config returned by \<^verbatim>\<open>getAlertConfigs\<close> has an upper or a lower threshold
  that is not \<^verbatim>\<open>null\<close>; and a rule whose condition parses to neither threshold is
  discarded: it leaves \<^verbatim>\<open>configs\<close> unchanged, and the result of \<^verbatim>\<open>getAlertConfigs\<close>
  is the same as without the rule.
\<close>

theorem getAlertConfigs_threshold_present:
  assumes "getAlertConfigs rulesResponse monitorsResponse = Inr configs"
  shows "(\<forall>c \<in> set configs. upper_threshold c \<noteq> None \<or> lower_threshold c \<noteq> None)
       \<and> (p_upper_threshold (parseAlertCondition (ar_condition rule) None) = None
            \<and> p_lower_threshold (parseAlertCondition (ar_condition rule) None) = None
          \<longrightarrow> processRule monitors cs rule = cs
              \<and> getAlertConfigs (Inr (before @ rule # after)) (Inr monitors)
                  = getAlertConfigs (Inr (before @ after)) (Inr monitors))"
proof -
  have inv: "\<forall>c \<in> set configs. upper_threshold c \<noteq> None \<or> lower_threshold c \<noteq> None"
  proof (cases "promise_all rulesResponse monitorsResponse")
    case (Inl e)
    with assms show ?thesis by (simp add: getAlertConfigs_def)
  next
    case (Inr rm)
    then obtain rules ms where "rulesResponse = Inr rules" "monitorsResponse = Inr ms"
      by (cases rulesResponse; cases monitorsResponse) auto
    with assms have "configs = concat (map (processRule ms []) rules)"
      by (simp add: getAlertConfigs_Inr)
    then show ?thesis using processRule_thresholds by auto
  qed
  have discard: "processRule monitors cs rule = cs
              \<and> getAlertConfigs (Inr (before @ rule # after)) (Inr monitors)
                  = getAlertConfigs (Inr (before @ after)) (Inr monitors)"
    if none: "p_upper_threshold (parseAlertCondition (ar_condition rule) None) = None
            \<and> p_lower_threshold (parseAlertCondition (ar_condition rule) None) = None"
  proof -
    have "processRule monitors xs rule = xs" for xs
      using none by (simp add: processRule_def Let_def)
    then show ?thesis by (simp add: getAlertConfigs_Inr)
  qed
  from inv discard show ?thesis by blast
qed

text \<open>
  C7: when the monitor request throws, \<^verbatim>\<open>getMonitors\<close> resolves with the empty list;
  when the alert-rule request or the monitor request throws, \<^verbatim>\<open>getAlertConfigs\<close>
  resolves with the empty list. Neither rejects.
\<close>

theorem fetch_failure_gives_empty_list:
  "getMonitors (Inl e) = Inr []
   \<and> getAlertConfigs (Inl e) monitorsResponse = Inr []
   \<and> getAlertConfigs rulesResponse (Inl e) = Inr []"
proof -
  have "promise_all rulesResponse (Inl e :: error + ApiMonitor list) = Inl e \<or>
        (\<exists>e'. promise_all rulesResponse (Inl e :: error + ApiMonitor list) = Inl e')"
    by (cases rulesResponse) auto
  then have "getAlertConfigs rulesResponse (Inl e) = Inr []"
    by (auto simp: getAlertConfigs_def)
  then show ?thesis by (simp add: getMonitors_def getAlertConfigs_def)
qed



section \<open>Properties of updateAlertConfig\<close>

lemma numberToString_zero: "numberToString fractional (Num 0) = ''0''"
  by (simp add: numberToString_def nat_to_string.simps)

text \<open>
  C10: called with an upper threshold of 0, \<^verbatim>\<open>updateAlertConfig\<close> posts to the
  alert-rule endpoint a body whose condition holds \<^verbatim>\<open>value > 0\<close> (followed by the
  lower comparison, if a lower threshold is given); when the backend rejects the call
  the error is rethrown, and when it accepts, the config returned carries the reply's
  level and dates and has \<^verbatim>\<open>upper_threshold\<close> \<^verbatim>\<open>null\<close>, not 0. The same holds for
  a lower threshold of 0, with \<^verbatim>\<open>value < 0\<close> and \<^verbatim>\<open>lower_threshold\<close>.
\<close>

theorem updateAlertConfig_zero_threshold:
  "updateAlertConfig fractional request monitorId (Some (Num 0)) lowerThreshold alertLevel =
     (case request ''/api/alert-rules''
             \<lparr>rq_name = ''Alert for '' @ monitorId,
              rq_condition =
                ''value > 0'' @ (case lowerThreshold of
                                   None \<Rightarrow> []
                                 | Some l \<Rightarrow> '' OR value < '' @ numberToString fractional l),
              rq_level = (case alertLevel of None \<Rightarrow> ''medium'' | Some l \<Rightarrow> l),
              rq_enabled = True,
              rq_cooldown_seconds = 300,
              rq_actions = []\<rparr> of
        Inl e \<Rightarrow> Inl e
      | Inr rule \<Rightarrow>
          Inr \<lparr>monitor_id = monitorId,
               upper_threshold = None,
               lower_threshold = or_null lowerThreshold,
               alert_level = ar_level rule,
               created_at = ar_created_at rule,
               updated_at = ar_updated_at rule\<rparr>)
   \<and> updateAlertConfig fractional request monitorId upperThreshold (Some (Num 0)) alertLevel =
     (case request ''/api/alert-rules''
             \<lparr>rq_name = ''Alert for '' @ monitorId,
              rq_condition =
                (case upperThreshold of
                   None \<Rightarrow> []
                 | Some u \<Rightarrow> ''value > '' @ numberToString fractional u @ '' OR '')
                @ ''value < 0'',
              rq_level = (case alertLevel of None \<Rightarrow> ''medium'' | Some l \<Rightarrow> l),
              rq_enabled = True,
              rq_cooldown_seconds = 300,
              rq_actions = []\<rparr> of
        Inl e \<Rightarrow> Inl e
      | Inr rule \<Rightarrow>
          Inr \<lparr>monitor_id = monitorId,
               upper_threshold = or_null upperThreshold,
               lower_threshold = None,
               alert_level = ar_level rule,
               created_at = ar_created_at rule,
               updated_at = ar_updated_at rule\<rparr>)"
proof -
  have a: "buildCondition fractional (Some (Num 0)) lowerThreshold
     = ''value > 0'' @ (case lowerThreshold of
                          None \<Rightarrow> []
                        | Some l \<Rightarrow> '' OR value < '' @ numberToString fractional l)"
    by (simp add: buildCondition_def numberToString_zero split: option.splits)
  have b: "buildCondition fractional upperThreshold (Some (Num 0))
     = (case upperThreshold of
          None \<Rightarrow> []
        | Some u \<Rightarrow> ''value > '' @ numberToString fractional u @ '' OR '') @ ''value < 0''"
    by (simp add: buildCondition_def numberToString_zero split: option.splits)
  have z: "or_null (Some (Num 0)) = None" by simp
  show ?thesis
    unfolding updateAlertConfig_def alertRuleRequest_def alertLevel_or_default_def a b z
    by simp
qed


section \<open>Properties of the custom sort order\<close>

lemma indexOf_ge: "- 1 \<le> indexOf xs x"
  by (induction xs) (auto simp: Let_def)

lemma indexOf_absent: "indexOf xs x = - 1 \<longleftrightarrow> x \<notin> set xs"
proof (induction xs)
  case Nil
  show ?case by simp
next
  case (Cons y ys)
  have "indexOf ys x + 1 \<noteq> - 1" using indexOf_ge [of ys x] by linarith
  with Cons show ?case by (auto simp: Let_def)
qed

lemma indexOf_first_position:
  assumes "x \<in> set xs"
  shows "0 \<le> indexOf xs x \<and> nat (indexOf xs x) < length xs \<and> xs ! nat (indexOf xs x) = x
       \<and> x \<notin> set (take (nat (indexOf xs x)) xs)"
  using assms
proof (induction xs)
  case Nil
  then show ?case by simp
next
  case (Cons y ys)
  show ?case
  proof (cases "y = x")
    case True
    then show ?thesis by simp
  next
    case False
    with Cons.prems have in_ys: "x \<in> set ys" by simp
    then have ne: "indexOf ys x \<noteq> - 1" by (simp add: indexOf_absent)
    from Cons.IH [OF in_ys] have ih: "0 \<le> indexOf ys x" "nat (indexOf ys x) < length ys"
      "ys ! nat (indexOf ys x) = x" "x \<notin> set (take (nat (indexOf ys x)) ys)" by simp_all
    have n: "nat (indexOf ys x + 1) = Suc (nat (indexOf ys x))" using ih(1) by simp
    from False ne ih show ?thesis by (simp add: Let_def n)
  qed
qed

lemma set_sort_insert: "set (sort_insert cmp x xs) = insert x (set xs)"
  by (induction xs) auto

lemma mset_sort_insert: "mset (sort_insert cmp x xs) = add_mset x (mset xs)"
  by (induction xs) auto

lemma mset_array_sort: "mset (array_sort cmp xs) = mset xs"
  by (induction xs) (simp_all add: mset_sort_insert)

lemma sorted_wrt_sort_insert:
  assumes tr: "\<And>a b c. R a b \<Longrightarrow> R b c \<Longrightarrow> R a c"
    and le: "\<And>a b. cmp a b \<le> 0 \<Longrightarrow> R a b"
    and gt: "\<And>a b. 0 < cmp a b \<Longrightarrow> R b a"
    and srt: "sorted_wrt R xs"
  shows "sorted_wrt R (sort_insert cmp x xs)"
  using srt
proof (induction xs)
  case Nil
  show ?case by simp
next
  case (Cons y ys)
  show ?case
  proof (cases "cmp x y \<le> 0")
    case True
    then have xy: "R x y" by (rule le)
    have "R x z" if "z \<in> set ys" for z
      using Cons.prems that tr [OF xy] by auto
    with xy Cons.prems True show ?thesis by auto
  next
    case False
    then have "R y x" using gt [of x y] by simp
    moreover have "sorted_wrt R (sort_insert cmp x ys)"
      using Cons by simp
    ultimately show ?thesis
      using False Cons.prems by (auto simp: set_sort_insert)
  qed
qed

lemma sorted_wrt_array_sort:
  assumes "\<And>a b c. R a b \<Longrightarrow> R b c \<Longrightarrow> R a c"
    and "\<And>a b. cmp a b \<le> 0 \<Longrightarrow> R a b"
    and "\<And>a b. 0 < cmp a b \<Longrightarrow> R b a"
  shows "sorted_wrt R (array_sort cmp xs)"
proof (induction xs)
  case Nil
  show ?case by simp
next
  case (Cons x xs)
  then show ?case
    using sorted_wrt_sort_insert [of R cmp "array_sort cmp xs" x] assms by simp
qed

lemma custom_before_trans:
  "custom_before co a b \<Longrightarrow> custom_before co b c \<Longrightarrow> custom_before co a c"
  unfolding custom_before_def by (meson order_trans)

lemma custom_index_le:
  assumes "(if ia \<noteq> - 1 \<and> ib \<noteq> - 1 then ia - ib
            else if ia \<noteq> - 1 then - 1 else if ib \<noteq> - 1 then 1 else (t :: int)) \<le> 0"
    and "ia = indexOf co a" and "ib = indexOf co b"
  shows "custom_before co a b"
  using assms unfolding custom_before_def
  by (auto simp: indexOf_absent split: if_splits)

lemma custom_index_gt:
  assumes "0 < (if ia \<noteq> - 1 \<and> ib \<noteq> - 1 then ia - ib
            else if ia \<noteq> - 1 then - 1 else if ib \<noteq> - 1 then 1 else (t :: int))"
    and "ia = indexOf co a" and "ib = indexOf co b"
  shows "custom_before co b a"
  using assms unfolding custom_before_def
  by (auto simp: indexOf_absent split: if_splits)

lemma sortedMonitors_sorted:
  "sorted_wrt (\<lambda>a b. custom_before co (ms_monitor_id a) (ms_monitor_id b))
     (sortedMonitors lower cmp co monitors)"
  unfolding sortedMonitors_def
proof (rule sorted_wrt_array_sort)
  show "custom_before co (ms_monitor_id a) (ms_monitor_id b) \<Longrightarrow>
        custom_before co (ms_monitor_id b) (ms_monitor_id c) \<Longrightarrow>
        custom_before co (ms_monitor_id a) (ms_monitor_id c)" for a b c
    by (rule custom_before_trans)
  show "compareMonitorsCustom lower cmp co a b \<le> 0 \<Longrightarrow>
        custom_before co (ms_monitor_id a) (ms_monitor_id b)" for a b
    unfolding compareMonitorsCustom_def Let_def by (rule custom_index_le) simp_all
  show "0 < compareMonitorsCustom lower cmp co a b \<Longrightarrow>
        custom_before co (ms_monitor_id b) (ms_monitor_id a)" for a b
    unfolding compareMonitorsCustom_def Let_def by (rule custom_index_gt) simp_all
qed

lemma sortedAlertItems_sorted:
  "sorted_wrt (\<lambda>a b. custom_before co (ms_monitor_id (ai_monitor a)) (ms_monitor_id (ai_monitor b)))
     (sortedAlertItems lower cmp co alertItems)"
  unfolding sortedAlertItems_def
proof (rule sorted_wrt_array_sort)
  show "custom_before co (ms_monitor_id (ai_monitor a)) (ms_monitor_id (ai_monitor b)) \<Longrightarrow>
        custom_before co (ms_monitor_id (ai_monitor b)) (ms_monitor_id (ai_monitor c)) \<Longrightarrow>
        custom_before co (ms_monitor_id (ai_monitor a)) (ms_monitor_id (ai_monitor c))" for a b c
    by (rule custom_before_trans)
  show "compareAlertItemsCustom lower cmp co a b \<le> 0 \<Longrightarrow>
        custom_before co (ms_monitor_id (ai_monitor a)) (ms_monitor_id (ai_monitor b))" for a b
    unfolding compareAlertItemsCustom_def Let_def by (rule custom_index_le) simp_all
  show "0 < compareAlertItemsCustom lower cmp co a b \<Longrightarrow>
        custom_before co (ms_monitor_id (ai_monitor b)) (ms_monitor_id (ai_monitor a))" for a b
    unfolding compareAlertItemsCustom_def Let_def by (rule custom_index_gt) simp_all
qed

text \<open>
  C8: under the custom strategy the sorted monitors (and the sorted alert items) are a
  rearrangement of the input in which, for any two positions \<open>i < j\<close>, a listed id at
  \<open>j\<close> has a listed id at \<open>i\<close>, and two listed ids stand in the order of their
  positions in the custom-order list.
\<close>

theorem custom_sort_listed_first:
  assumes "out = sortedMonitors toLowerCase localeCompare customOrder monitors"
    and "items = sortedAlertItems toLowerCase localeCompare customOrder alertItems"
  shows "mset out = mset monitors
       \<and> (\<forall>i j. i < j \<and> j < length out \<longrightarrow>
            custom_before customOrder (ms_monitor_id (out ! i)) (ms_monitor_id (out ! j)))
       \<and> mset items = mset alertItems
       \<and> (\<forall>i j. i < j \<and> j < length items \<longrightarrow>
            custom_before customOrder (ms_monitor_id (ai_monitor (items ! i)))
                                      (ms_monitor_id (ai_monitor (items ! j))))"
proof -
  have 1: "mset out = mset monitors"
    using assms(1) by (simp add: sortedMonitors_def mset_array_sort)
  have 2: "mset items = mset alertItems"
    using assms(2) by (simp add: sortedAlertItems_def mset_array_sort)
  have 3: "\<forall>i j. i < j \<and> j < length out \<longrightarrow>
            custom_before customOrder (ms_monitor_id (out ! i)) (ms_monitor_id (out ! j))"
    using sortedMonitors_sorted [of customOrder toLowerCase localeCompare monitors] assms(1)
    by (simp add: sorted_wrt_iff_nth_less)
  have 4: "\<forall>i j. i < j \<and> j < length items \<longrightarrow>
            custom_before customOrder (ms_monitor_id (ai_monitor (items ! i)))
                                      (ms_monitor_id (ai_monitor (items ! j)))"
    using sortedAlertItems_sorted [of customOrder toLowerCase localeCompare alertItems] assms(2)
    by (simp add: sorted_wrt_iff_nth_less)
  from 1 2 3 4 show ?thesis by blast
qed


section \<open>The properties on sample data\<close>

lemmas sample_defs = sample_monitor_def sample_rule_def sample_config_def

text \<open>
  The global rule \<^verbatim>\<open>"value > 100"\<close> over three monitors gives three configs with
  upper threshold 100.
\<close>

theorem global_rule_one_config_per_monitor_witness:
  "ar_enabled (sample_rule ''value > 100'' True)
   \<and> parseAlertCondition (ar_condition (sample_rule ''value > 100'' True)) None =
       \<lparr>p_upper_threshold = Some (Num 100), p_lower_threshold = None, p_monitor_id = None\<rparr>
   \<and> getAlertConfigs (Inr [sample_rule ''value > 100'' True])
        (Inr [sample_monitor ''a'', sample_monitor ''b'', sample_monitor ''c''])
      = Inr [sample_config ''a'' (Some (Num 100)) None,
             sample_config ''b'' (Some (Num 100)) None,
             sample_config ''c'' (Some (Num 100)) None]"
proof -
  let ?rule = "sample_rule ''value > 100'' True"
  let ?monitors = "[sample_monitor ''a'', sample_monitor ''b'', sample_monitor ''c'']"
  let ?p = "\<lparr>p_upper_threshold = Some (Num 100), p_lower_threshold = None, p_monitor_id = None\<rparr>"
  let ?emitted = "[sample_config ''a'' (Some (Num 100)) None,
                   sample_config ''b'' (Some (Num 100)) None,
                   sample_config ''c'' (Some (Num 100)) None]"
  have en: "ar_enabled ?rule" by (simp add: sample_rule_def)
  have "parseAlertCondition ''value > 100'' None = ?p" by (simp add: parse_defs)
  then have p: "?p = parseAlertCondition (ar_condition ?rule) None" by (simp add: sample_rule_def)
  have th: "p_upper_threshold ?p \<noteq> None \<or> p_lower_threshold ?p \<noteq> None" by simp
  have mid: "p_monitor_id ?p = None" by simp
  have em: "?emitted = map (\<lambda>monitor.
            \<lparr>monitor_id = am_id monitor,
             upper_threshold = p_upper_threshold ?p,
             lower_threshold = p_lower_threshold ?p,
             alert_level = ar_level ?rule,
             created_at = ar_created_at ?rule,
             updated_at = ar_updated_at ?rule\<rparr>) ?monitors"
    by (simp add: sample_defs)
  from global_rule_one_config_per_monitor [OF en p th mid em, of "[]" "[]" "[]"]
  obtain pre post where
    a: "getAlertConfigs (Inr []) (Inr ?monitors) = Inr pre"
    and b: "getAlertConfigs (Inr []) (Inr ?monitors) = Inr post"
    and c: "getAlertConfigs (Inr ([] @ ?rule # [])) (Inr ?monitors) = Inr (pre @ ?emitted @ post)"
    by blast
  have "getAlertConfigs (Inr []) (Inr ?monitors) = Inr []" by (simp add: getAlertConfigs_def)
  with a b have "pre = []" "post = []" by simp_all
  with c have "getAlertConfigs (Inr [?rule]) (Inr ?monitors) = Inr ?emitted" by simp
  with en p show ?thesis by simp
qed

text \<open>A disabled rule on an existing monitor gives no config.\<close>

theorem disabled_rule_no_config_witness:
  "ar_enabled (sample_rule ''${monitor:m1} > 100'' False) = False
   \<and> getAlertConfigs (Inr [sample_rule ''${monitor:m1} > 100'' False])
        (Inr [sample_monitor ''m1'']) = Inr []"
proof -
  let ?rule = "sample_rule ''${monitor:m1} > 100'' False"
  have dis: "\<not> ar_enabled ?rule" by (simp add: sample_rule_def)
  from disabled_rule_no_config [OF dis, of "[sample_monitor ''m1'']" "[]" "[]" "[]"]
  have "getAlertConfigs (Inr [?rule]) (Inr [sample_monitor ''m1''])
        = getAlertConfigs (Inr []) (Inr [sample_monitor ''m1''])" by simp
  also have "\<dots> = Inr []" by (simp add: getAlertConfigs_def)
  finally show ?thesis using dis by simp
qed

text \<open>
  The rule \<^verbatim>\<open>"${monitor:m1} > 100"\<close> gives one config when \<^verbatim>\<open>m1\<close> is among the
  monitors and none when it is not.
\<close>

theorem monitor_rule_one_config_if_monitor_exists_witness:
  "ar_enabled (sample_rule ''${monitor:m1} > 100'' True)
   \<and> parseAlertCondition (ar_condition (sample_rule ''${monitor:m1} > 100'' True)) None =
       \<lparr>p_upper_threshold = Some (Num 100), p_lower_threshold = None, p_monitor_id = Some ''m1''\<rparr>
   \<and> processRule [sample_monitor ''m2'', sample_monitor ''m1''] []
        (sample_rule ''${monitor:m1} > 100'' True) = [sample_config ''m1'' (Some (Num 100)) None]
   \<and> processRule [sample_monitor ''m2''] [] (sample_rule ''${monitor:m1} > 100'' True) = []"
proof -
  let ?rule = "sample_rule ''${monitor:m1} > 100'' True"
  let ?p = "\<lparr>p_upper_threshold = Some (Num 100), p_lower_threshold = None,
             p_monitor_id = Some ''m1''\<rparr>"
  have en: "ar_enabled ?rule" by (simp add: sample_rule_def)
  have "parseAlertCondition ''${monitor:m1} > 100'' None = ?p" by (simp add: parse_defs)
  then have p: "?p = parseAlertCondition (ar_condition ?rule) None" by (simp add: sample_rule_def)
  have th: "p_upper_threshold ?p \<noteq> None \<or> p_lower_threshold ?p \<noteq> None" by simp
  have mid: "p_monitor_id ?p = Some ''m1''" by simp
  have 1: "processRule [sample_monitor ''m2'', sample_monitor ''m1''] [] ?rule
           = [sample_config ''m1'' (Some (Num 100)) None]"
    using monitor_rule_one_config_if_monitor_exists [OF en p th mid refl,
            of "[sample_monitor ''m2'', sample_monitor ''m1'']" "[]" "[]" "[]"]
    by (simp add: sample_defs)
  have 2: "processRule [sample_monitor ''m2''] [] ?rule = []"
    using monitor_rule_one_config_if_monitor_exists [OF en p th mid refl,
            of "[sample_monitor ''m2'']" "[]" "[]" "[]"]
    by (simp add: sample_defs)
  from en p 1 2 show ?thesis by simp
qed

text \<open>
  Of the rules \<^verbatim>\<open>"foo bar"\<close> and \<^verbatim>\<open>"value > 100"\<close> only the second gives a config,
  and it has its upper threshold; the first is discarded.
\<close>

theorem getAlertConfigs_threshold_present_witness:
  "getAlertConfigs (Inr [sample_rule ''foo bar'' True, sample_rule ''value > 100'' True])
        (Inr [sample_monitor ''a''])
      = Inr [sample_config ''a'' (Some (Num 100)) None]
   \<and> lower_threshold (sample_config ''a'' (Some (Num 100)) None) = None
   \<and> (\<exists>u. upper_threshold (sample_config ''a'' (Some (Num 100)) None) = Some u)
   \<and> parseAlertCondition (ar_condition (sample_rule ''foo bar'' True)) None =
        \<lparr>p_upper_threshold = None, p_lower_threshold = None, p_monitor_id = None\<rparr>
   \<and> processRule [sample_monitor ''a''] [] (sample_rule ''foo bar'' True) = []"
proof -
  let ?c = "sample_config ''a'' (Some (Num 100)) None"
  have p1: "parseAlertCondition ''foo bar'' None =
        \<lparr>p_upper_threshold = None, p_lower_threshold = None, p_monitor_id = None\<rparr>"
    by (simp add: parse_defs)
  have p2: "parseAlertCondition ''value > 100'' None =
        \<lparr>p_upper_threshold = Some (Num 100), p_lower_threshold = None, p_monitor_id = None\<rparr>"
    by (simp add: parse_defs)
  have run: "getAlertConfigs (Inr [sample_rule ''foo bar'' True, sample_rule ''value > 100'' True])
        (Inr [sample_monitor ''a'']) = Inr [?c]"
    by (simp add: getAlertConfigs_def processRule_def p1 p2 mkConfig_def sample_defs)
  have low: "lower_threshold ?c = None" by (simp add: sample_config_def)
  have p1': "parseAlertCondition (ar_condition (sample_rule ''foo bar'' True)) None =
        \<lparr>p_upper_threshold = None, p_lower_threshold = None, p_monitor_id = None\<rparr>"
    using p1 by (simp add: sample_rule_def)
  note th = getAlertConfigs_threshold_present [OF run,
      where rule = "sample_rule ''foo bar'' True" and monitors = "[sample_monitor ''a'']"
        and cs = "[]" and before = "[]" and after = "[]"]
  from th have "upper_threshold ?c \<noteq> None \<or> lower_threshold ?c \<noteq> None" by simp
  with low have up: "\<exists>u. upper_threshold ?c = Some u" by auto
  from th p1' have disc: "processRule [sample_monitor ''a''] [] (sample_rule ''foo bar'' True) = []"
    by simp
  from run low up p1' disc show ?thesis by blast
qed

text \<open>
  Against a backend that accepts only the condition \<^verbatim>\<open>value > 0\<close> (or
  \<^verbatim>\<open>value < 0\<close>) the call succeeds and the threshold comes back \<^verbatim>\<open>null\<close>; against
  a backend that fails, the error comes back.
\<close>

theorem updateAlertConfig_zero_threshold_witness:
  "updateAlertConfig (\<lambda>r. []) (sample_strict_backend ''value > 0'') ''m1'' (Some (Num 0)) None None
     = Inr \<lparr>monitor_id = ''m1'', upper_threshold = None, lower_threshold = None,
            alert_level = ''medium'', created_at = ''2024-01-01T00:00:00'',
            updated_at = ''2024-01-02T00:00:00''\<rparr>
   \<and> updateAlertConfig (\<lambda>r. []) (sample_strict_backend ''value < 0'') ''m1'' None (Some (Num 0)) None
     = Inr \<lparr>monitor_id = ''m1'', upper_threshold = None, lower_threshold = None,
            alert_level = ''medium'', created_at = ''2024-01-01T00:00:00'',
            updated_at = ''2024-01-02T00:00:00''\<rparr>
   \<and> updateAlertConfig (\<lambda>r. []) sample_failing_backend ''m1'' (Some (Num 0)) None None
     = Inl (Error ''500'')"
proof -
  have 1: "updateAlertConfig (\<lambda>r. []) (sample_strict_backend ''value > 0'') ''m1''
             (Some (Num 0)) None None
     = Inr \<lparr>monitor_id = ''m1'', upper_threshold = None, lower_threshold = None,
            alert_level = ''medium'', created_at = ''2024-01-01T00:00:00'',
            updated_at = ''2024-01-02T00:00:00''\<rparr>"
    using updateAlertConfig_zero_threshold
      [where fractional = "\<lambda>r. []" and monitorId = "''m1''" and lowerThreshold = None
         and upperThreshold = None and alertLevel = None
         and request = "sample_strict_backend ''value > 0''"]
    by (simp add: sample_strict_backend_def sample_backend_def sample_rule_def)
  have 2: "updateAlertConfig (\<lambda>r. []) (sample_strict_backend ''value < 0'') ''m1''
             None (Some (Num 0)) None
     = Inr \<lparr>monitor_id = ''m1'', upper_threshold = None, lower_threshold = None,
            alert_level = ''medium'', created_at = ''2024-01-01T00:00:00'',
            updated_at = ''2024-01-02T00:00:00''\<rparr>"
    using updateAlertConfig_zero_threshold
      [where fractional = "\<lambda>r. []" and monitorId = "''m1''" and lowerThreshold = None
         and upperThreshold = None and alertLevel = None
         and request = "sample_strict_backend ''value < 0''"]
    by (simp add: sample_strict_backend_def sample_backend_def sample_rule_def)
  have 3: "updateAlertConfig (\<lambda>r. []) sample_failing_backend ''m1'' (Some (Num 0)) None None
     = Inl (Error ''500'')"
    using updateAlertConfig_zero_threshold
      [where fractional = "\<lambda>r. []" and monitorId = "''m1''" and lowerThreshold = None
         and upperThreshold = None and alertLevel = None and request = sample_failing_backend]
    by (simp add: sample_failing_backend_def)
  from 1 2 3 show ?thesis by blast
qed

text \<open>
  With the custom order \<^verbatim>\<open>a,b\<close>, the monitors \<^verbatim>\<open>z b y a\<close> come out as
  \<^verbatim>\<open>a b z y\<close>.
\<close>

theorem custom_sort_listed_first_witness:
  "map ms_monitor_id
     (sortedMonitors (\<lambda>s. s) (\<lambda>a b. 0) [''a'', ''b'']
        (map sample_summary [''z'', ''b'', ''y'', ''a'']))
     = [''a'', ''b'', ''z'', ''y'']
   \<and> map (\<lambda>item. ms_monitor_id (ai_monitor item))
     (sortedAlertItems (\<lambda>s. s) (\<lambda>a b. 0) [''a'', ''b'']
        [sample_item ''z'' False, sample_item ''b'' True, sample_item ''y'' True, sample_item ''a'' False])
     = [''a'', ''b'', ''y'', ''z'']
   \<and> custom_before [''a'', ''b''] ''a'' ''b''
   \<and> custom_before [''a'', ''b''] ''b'' ''z''
   \<and> custom_before [''a'', ''b''] ''b'' ''y''"
proof -
  let ?monitors = "map sample_summary [''z'', ''b'', ''y'', ''a'']"
  let ?alertItems = "[sample_item ''z'' False, sample_item ''b'' True, sample_item ''y'' True,
                      sample_item ''a'' False]"
  let ?out = "sortedMonitors (\<lambda>s. s) (\<lambda>a b. 0) [''a'', ''b''] ?monitors"
  let ?items = "sortedAlertItems (\<lambda>s. s) (\<lambda>a b. 0) [''a'', ''b''] ?alertItems"
  have out: "?out = map sample_summary [''a'', ''b'', ''z'', ''y'']"
    by (simp add: sortedMonitors_def compareMonitorsCustom_def sample_summary_def
          transformMonitor_def sample_monitor_def)
  have items: "?items = [sample_item ''a'' False, sample_item ''b'' True, sample_item ''y'' True,
                         sample_item ''z'' False]"
    by (simp add: sortedAlertItems_def compareAlertItemsCustom_def sample_item_def
          sample_summary_def transformMonitor_def sample_monitor_def)
  have ids: "ms_monitor_id (sample_summary i) = i" for i
    by (simp add: sample_summary_def transformMonitor_def sample_monitor_def)
  have iids: "ms_monitor_id (ai_monitor (sample_item i x)) = i" for i x
    by (simp add: sample_item_def ids)
  note th = custom_sort_listed_first [OF refl refl,
      of "\<lambda>s. s" "\<lambda>a b. 0" "[''a'', ''b'']" ?monitors ?alertItems]
  from th have m: "\<forall>i j. i < j \<and> j < length ?out \<longrightarrow>
      custom_before [''a'', ''b''] (ms_monitor_id (?out ! i)) (ms_monitor_id (?out ! j))"
    by blast
  from m [rule_format, of 0 1] have 1: "custom_before [''a'', ''b''] ''a'' ''b''"
    unfolding out by (simp add: ids)
  from m [rule_format, of 1 2] have 2: "custom_before [''a'', ''b''] ''b'' ''z''"
    unfolding out by (simp add: ids)
  from th have "\<forall>i j. i < j \<and> j < length ?items \<longrightarrow>
      custom_before [''a'', ''b''] (ms_monitor_id (ai_monitor (?items ! i)))
                                   (ms_monitor_id (ai_monitor (?items ! j)))"
    by blast
  from this [rule_format, of 1 2] have 3: "custom_before [''a'', ''b''] ''b'' ''y''"
    unfolding items by (simp add: iids)
  from out items 1 2 3 show ?thesis by (simp add: ids iids)
qed

end
